theory Spec2Isabelle
  imports Complex_Main "HOL-Library.Sublist"
begin

section \<open>Python failures\<close>

text \<open>
  A raised Python exception is a value of \<open>py_exception\<close>; a function that may raise
  returns \<open>py_exception + 'a\<close>, with \<open>Inl\<close> for the raise. \<open>RpcError\<close> is
  \<open>grpc.RpcError\<close> with the status code the server reported. \<open>KeyboardInterrupt\<close> and
  \<open>SystemExit\<close> derive from \<open>BaseException\<close> only, so a handler written
  \<open>except Exception\<close> does not catch them.
\<close>

datatype status_code =
    NOT_FOUND | INVALID_ARGUMENT | PERMISSION_DENIED | UNAUTHENTICATED
  | FAILED_PRECONDITION | INTERNAL | UNAVAILABLE | DEADLINE_EXCEEDED

datatype py_exception =
    ValueError int
  | ZeroDivisionError
  | OverflowError
  | AttributeError
  | ImportError
  | ValidationError
  | RpcError status_code
  | FutureTimeoutError
  | KeyboardInterrupt
  | SystemExit

fun is_Exception :: "py_exception \<Rightarrow> bool" where
  "is_Exception KeyboardInterrupt = False"
| "is_Exception SystemExit = False"
| "is_Exception _ = True"

section \<open>Python floats\<close>

text \<open>
  A Python float is an IEEE 754 binary64 number. \<open>Finite m e\<close> is the number
  \<open>m \<times> 2\<^sup>e\<close>, kept with \<open>m\<close> odd so that every number has one form; \<open>Finite 0 0\<close>
  is \<open>0.0\<close> and \<open>NegZero\<close> is \<open>-0.0\<close>.
\<close>

datatype pyfloat = Finite int int | NegZero | PosInf | NegInf | NaN

text \<open>\<open>int.bit_length\<close> of a positive integer.\<close>

function bit_length :: "int \<Rightarrow> nat" where
  "bit_length n = (if n \<le> 0 then 0 else Suc (bit_length (n div 2)))"
  by pat_completeness auto
termination
  by (relation "measure nat") auto

declare bit_length.simps [simp del]

text \<open>For positive \<open>a\<close> and \<open>b\<close>, the integer \<open>k\<close> with \<open>2\<^sup>k \<le> a / b < 2\<^sup>k\<^sup>+\<^sup>1\<close>.\<close>

definition floor_log2 :: "int \<Rightarrow> int \<Rightarrow> int" where
  "floor_log2 a b =
     (let d = int (bit_length a) - int (bit_length b)
      in if (if 0 \<le> d then b * 2 ^ nat d \<le> a else b \<le> a * 2 ^ nat (- d)) then d else d - 1)"

text \<open>The integer nearest to \<open>n / d\<close> for positive \<open>d\<close>, a tie going to the even one.\<close>

definition round_half_even :: "int \<Rightarrow> int \<Rightarrow> int" where
  "round_half_even n d =
     (let q = n div d; r = n mod d
      in if 2 * r < d then q else if d < 2 * r then q + 1 else if even q then q else q + 1)"

function normalise :: "int \<Rightarrow> int \<Rightarrow> pyfloat" where
  "normalise m e =
     (if m = 0 then Finite 0 0
      else if even m then normalise (m div 2) (e + 1)
      else Finite m e)"
  by pat_completeness auto
termination
  by (relation "measure (\<lambda>(m, e). nat \<bar>m\<bar>)") auto

declare normalise.simps [simp del]

text \<open>
  Rounding to binary64, to nearest with ties to even: the float for the exact quotient
  \<open>a / b\<close> of \<open>a \<ge> 0\<close> and \<open>b > 0\<close>, with the sign given apart. The significand
  has 53 bits, the exponent of its last bit is at least \<open>-1074\<close> (below that the
  numbers are subnormal), and a result of \<open>2\<^sup>1\<^sup>0\<^sup>2\<^sup>4\<close> or more is an infinity.
\<close>

definition round64 :: "bool \<Rightarrow> int \<Rightarrow> int \<Rightarrow> pyfloat" where
  "round64 neg a b =
     (if a = 0 then (if neg then NegZero else Finite 0 0)
      else
        let e = max (floor_log2 a b - 52) (- 1074);
            m = (if 0 \<le> e then round_half_even a (b * 2 ^ nat e)
                 else round_half_even (a * 2 ^ nat (- e)) b)
        in if m = 0 then (if neg then NegZero else Finite 0 0)
           else if 0 \<le> e \<and> 2 ^ 1024 \<le> m * 2 ^ nat e then (if neg then NegInf else PosInf)
           else normalise (if neg then - m else m) e)"

text \<open>
  True division of two \<open>int\<close>s: it raises on a zero divisor, gives the correctly
  rounded quotient otherwise, and raises \<open>OverflowError\<close> when that is too large for a
  float. The sign of a zero quotient is that of the operands.
\<close>

definition truediv :: "int \<Rightarrow> int \<Rightarrow> py_exception + pyfloat" where
  "truediv a b =
     (if b = 0 then Inl ZeroDivisionError
      else case round64 ((a < 0) \<noteq> (b < 0)) \<bar>a\<bar> \<bar>b\<bar> of
             PosInf \<Rightarrow> Inl OverflowError
           | NegInf \<Rightarrow> Inl OverflowError
           | q \<Rightarrow> Inr q)"

fun is_neg :: "pyfloat \<Rightarrow> bool" where
  "is_neg (Finite m e) = (m < 0)"
| "is_neg NegZero = True"
| "is_neg NegInf = True"
| "is_neg _ = False"

fun is_zero :: "pyfloat \<Rightarrow> bool" where
  "is_zero (Finite m e) = (m = 0)"
| "is_zero NegZero = True"
| "is_zero _ = False"

fun is_inf :: "pyfloat \<Rightarrow> bool" where
  "is_inf PosInf = True"
| "is_inf NegInf = True"
| "is_inf _ = False"

text \<open>
  The product of two floats: the exact product rounded; it raises nothing, and a
  product too large is an infinity.
\<close>

definition fmul :: "pyfloat \<Rightarrow> pyfloat \<Rightarrow> pyfloat" where
  "fmul x y =
     (if x = NaN \<or> y = NaN then NaN
      else if (is_inf x \<and> is_zero y) \<or> (is_zero x \<and> is_inf y) then NaN
      else
        let neg = (is_neg x \<noteq> is_neg y)
        in if is_inf x \<or> is_inf y then (if neg then NegInf else PosInf)
           else if is_zero x \<or> is_zero y then (if neg then NegZero else Finite 0 0)
           else case (x, y) of
                  (Finite m1 e1, Finite m2 e2) \<Rightarrow>
                    (let m = \<bar>m1 * m2\<bar>; e = e1 + e2
                     in if 0 \<le> e then round64 neg (m * 2 ^ nat e) 1
                        else round64 neg m (2 ^ nat (- e)))
                | _ \<Rightarrow> NaN)"

section \<open>models/prompt.py\<close>

text \<open>
  \<open>PromptVersion\<close> and \<open>Prompt\<close>, with the fields that \<open>get_version\<close> and
  \<open>render\<close> read. A \<open>dict[str, str]\<close> is an association list in insertion order,
  which is the order \<open>items()\<close> iterates in.
\<close>

record PromptVersion =
  version :: int
  template :: string
  system_prompt :: string

record Prompt =
  slug :: string
  current_version :: int
  versions :: "PromptVersion list"

text \<open>\<open>version or self.current_version\<close>: \<open>None\<close> and \<open>0\<close> are both falsy.\<close>

definition version_or :: "int option \<Rightarrow> int \<Rightarrow> int" where
  "version_or ver dflt = (case ver of None \<Rightarrow> dflt | Some n \<Rightarrow> if n = 0 then dflt else n)"

text \<open>The loop of \<open>get_version\<close>: the first version whose number is the target.\<close>

fun first_numbered :: "int \<Rightarrow> PromptVersion list \<Rightarrow> PromptVersion option" where
  "first_numbered target [] = None"
| "first_numbered target (v # vs) =
     (if version v = target then Some v else first_numbered target vs)"

definition get_version :: "Prompt \<Rightarrow> int option \<Rightarrow> PromptVersion option" where
  "get_version p ver = first_numbered (version_or ver (current_version p)) (versions p)"

definition latest :: "Prompt \<Rightarrow> PromptVersion option" where
  "latest p = get_version p (Some (current_version p))"

text \<open>
  \<open>str.replace(old, new)\<close>: the occurrences of \<open>old\<close> are found from the left and do
  not overlap; with an empty \<open>old\<close>, \<open>new\<close> is put before every character and at the end.
\<close>

function str_replace :: "string \<Rightarrow> string \<Rightarrow> string \<Rightarrow> string" where
  "str_replace old new s =
     (if old = [] then new @ concat (map (\<lambda>c. c # new) s)
      else if s = [] then []
      else if prefix old s then new @ str_replace old new (drop (length old) s)
      else hd s # str_replace old new (tl s))"
  by pat_completeness auto
termination
  by (relation "measure (\<lambda>(old, new, s). length s)") auto

declare str_replace.simps [simp del]

text \<open>The f-string \<open>f"{{{{{name}}}}}"\<close> is two opening braces, the name, two closing braces.\<close>

definition placeholder :: "string \<Rightarrow> string" where
  "placeholder name = ''{{'' @ name @ ''}}''"

fun substitute :: "(string \<times> string) list \<Rightarrow> string \<Rightarrow> string" where
  "substitute [] t = t"
| "substitute ((name, val) # rest) t = substitute rest (str_replace (placeholder name) val t)"

definition render :: "Prompt \<Rightarrow> (string \<times> string) list option \<Rightarrow> int option
    \<Rightarrow> py_exception + string" where
  "render p variables ver =
     (case get_version p ver of
        None \<Rightarrow> Inl (ValueError (version_or ver (current_version p)))
      | Some v \<Rightarrow>
          Inr (case variables of
                 None \<Rightarrow> template v
               | Some vars \<Rightarrow> if vars = [] then template v else substitute vars (template v)))"

text \<open>
  What the specification says of \<open>render\<close>, as a definition of its own: a template is a
  sequence of literal text and placeholders, and every placeholder with a supplied value
  becomes that value while the others stay as they are.
\<close>

datatype token = Text string | Hole string

fun flatten :: "token list \<Rightarrow> string" where
  "flatten [] = []"
| "flatten (Text s # ts) = s @ flatten ts"
| "flatten (Hole n # ts) = placeholder n @ flatten ts"

fun fill :: "(string \<times> string) list \<Rightarrow> token list \<Rightarrow> string" where
  "fill vars [] = []"
| "fill vars (Text s # ts) = s @ fill vars ts"
| "fill vars (Hole n # ts) =
     (case map_of vars n of Some val \<Rightarrow> val | None \<Rightarrow> placeholder n) @ fill vars ts"

definition no_open :: "string \<Rightarrow> bool" where
  "no_open s = (CHR ''{'' \<notin> set s)"

definition brace_free :: "string \<Rightarrow> bool" where
  "brace_free s = (CHR ''{'' \<notin> set s \<and> CHR ''}'' \<notin> set s)"

fun wf_token :: "token \<Rightarrow> bool" where
  "wf_token (Text s) = no_open s"
| "wf_token (Hole n) = brace_free n"

definition wf_vars :: "(string \<times> string) list \<Rightarrow> bool" where
  "wf_vars vars = list_all (\<lambda>(name, val). brace_free name \<and> no_open val) vars"

text \<open>One variable supplied: its placeholders become text.\<close>

fun fill_one :: "string \<Rightarrow> string \<Rightarrow> token list \<Rightarrow> token list" where
  "fill_one a v [] = []"
| "fill_one a v (Text s # ts) = Text s # fill_one a v ts"
| "fill_one a v (Hole n # ts) = (if n = a then Text v else Hole n) # fill_one a v ts"

section \<open>models/eval.py\<close>

record EvalRun =
  total_examples :: int
  completed_examples :: int

text \<open>The \<open>int\<close> 100 becomes the float \<open>100.0\<close>, which is \<open>25 \<times> 2\<^sup>2\<close>.\<close>

definition hundred :: pyfloat where
  "hundred = Finite 25 2"

definition progress :: "EvalRun \<Rightarrow> py_exception + pyfloat" where
  "progress r =
     (if total_examples r = 0 then Inr (Finite 0 0)
      else case truediv (completed_examples r) (total_examples r) of
             Inl e \<Rightarrow> Inl e
           | Inr q \<Rightarrow> Inr (fmul q hundred))"

section \<open>models/deploy.py\<close>

datatype DeploymentStatus =
    UNSPECIFIED | PENDING_APPROVAL | PENDING_GATES | GATES_FAILED | IN_PROGRESS
  | COMPLETED | ROLLED_BACK | CANCELLED | FAILED

datatype DeploymentType =
    TYPE_UNSPECIFIED | IMMEDIATE | GRADUAL | CANARY | BLUE_GREEN

record Deployment =
  prompt_id :: string
  from_version :: int
  to_version :: int
  status :: DeploymentStatus
  gates_passed :: bool

definition is_active :: "Deployment \<Rightarrow> bool" where
  "is_active d = (status d \<in> set [PENDING_APPROVAL, PENDING_GATES, IN_PROGRESS])"

definition is_complete :: "Deployment \<Rightarrow> bool" where
  "is_complete d =
     (status d \<in> set [COMPLETED, ROLLED_BACK, CANCELLED, FAILED, GATES_FAILED])"

section \<open>services/deploy.py: the enum mappers\<close>

text \<open>
  The generated module \<open>deploy_pb2\<close> is not part of the sources; the mappers read
  fourteen integer constants from it, which are taken as a parameter.
\<close>

record deploy_pb2 =
  DEPLOYMENT_TYPE_UNSPECIFIED :: int
  DEPLOYMENT_TYPE_IMMEDIATE :: int
  DEPLOYMENT_TYPE_GRADUAL :: int
  DEPLOYMENT_TYPE_CANARY :: int
  DEPLOYMENT_TYPE_BLUE_GREEN :: int
  DEPLOYMENT_STATUS_UNSPECIFIED :: int
  DEPLOYMENT_STATUS_PENDING_APPROVAL :: int
  DEPLOYMENT_STATUS_PENDING_GATES :: int
  DEPLOYMENT_STATUS_GATES_FAILED :: int
  DEPLOYMENT_STATUS_IN_PROGRESS :: int
  DEPLOYMENT_STATUS_COMPLETED :: int
  DEPLOYMENT_STATUS_ROLLED_BACK :: int
  DEPLOYMENT_STATUS_CANCELLED :: int
  DEPLOYMENT_STATUS_FAILED :: int

text \<open>
  \<open>mapping.get(key, default)\<close>. A dict literal is the empty map updated entry by
  entry, so that of two entries with the same key the later one stays.
\<close>

definition dict_get :: "('k \<rightharpoonup> 'v) \<Rightarrow> 'k \<Rightarrow> 'v \<Rightarrow> 'v" where
  "dict_get mapping k dflt = (case mapping k of None \<Rightarrow> dflt | Some v \<Rightarrow> v)"

definition type_to_pb :: "deploy_pb2 \<Rightarrow> DeploymentType \<Rightarrow> int" where
  "type_to_pb pb t =
     dict_get
       [TYPE_UNSPECIFIED \<mapsto> DEPLOYMENT_TYPE_UNSPECIFIED pb,
        IMMEDIATE \<mapsto> DEPLOYMENT_TYPE_IMMEDIATE pb,
        GRADUAL \<mapsto> DEPLOYMENT_TYPE_GRADUAL pb,
        CANARY \<mapsto> DEPLOYMENT_TYPE_CANARY pb,
        BLUE_GREEN \<mapsto> DEPLOYMENT_TYPE_BLUE_GREEN pb]
       t (DEPLOYMENT_TYPE_UNSPECIFIED pb)"

definition type_from_pb :: "deploy_pb2 \<Rightarrow> int \<Rightarrow> DeploymentType" where
  "type_from_pb pb t =
     dict_get
       [DEPLOYMENT_TYPE_UNSPECIFIED pb \<mapsto> TYPE_UNSPECIFIED,
        DEPLOYMENT_TYPE_IMMEDIATE pb \<mapsto> IMMEDIATE,
        DEPLOYMENT_TYPE_GRADUAL pb \<mapsto> GRADUAL,
        DEPLOYMENT_TYPE_CANARY pb \<mapsto> CANARY,
        DEPLOYMENT_TYPE_BLUE_GREEN pb \<mapsto> BLUE_GREEN]
       t TYPE_UNSPECIFIED"

definition status_to_pb :: "deploy_pb2 \<Rightarrow> DeploymentStatus \<Rightarrow> int" where
  "status_to_pb pb s =
     dict_get
       [UNSPECIFIED \<mapsto> DEPLOYMENT_STATUS_UNSPECIFIED pb,
        PENDING_APPROVAL \<mapsto> DEPLOYMENT_STATUS_PENDING_APPROVAL pb,
        PENDING_GATES \<mapsto> DEPLOYMENT_STATUS_PENDING_GATES pb,
        GATES_FAILED \<mapsto> DEPLOYMENT_STATUS_GATES_FAILED pb,
        IN_PROGRESS \<mapsto> DEPLOYMENT_STATUS_IN_PROGRESS pb,
        COMPLETED \<mapsto> DEPLOYMENT_STATUS_COMPLETED pb,
        ROLLED_BACK \<mapsto> DEPLOYMENT_STATUS_ROLLED_BACK pb,
        CANCELLED \<mapsto> DEPLOYMENT_STATUS_CANCELLED pb,
        FAILED \<mapsto> DEPLOYMENT_STATUS_FAILED pb]
       s (DEPLOYMENT_STATUS_UNSPECIFIED pb)"

definition status_from_pb :: "deploy_pb2 \<Rightarrow> int \<Rightarrow> DeploymentStatus" where
  "status_from_pb pb s =
     dict_get
       [DEPLOYMENT_STATUS_UNSPECIFIED pb \<mapsto> UNSPECIFIED,
        DEPLOYMENT_STATUS_PENDING_APPROVAL pb \<mapsto> PENDING_APPROVAL,
        DEPLOYMENT_STATUS_PENDING_GATES pb \<mapsto> PENDING_GATES,
        DEPLOYMENT_STATUS_GATES_FAILED pb \<mapsto> GATES_FAILED,
        DEPLOYMENT_STATUS_IN_PROGRESS pb \<mapsto> IN_PROGRESS,
        DEPLOYMENT_STATUS_COMPLETED pb \<mapsto> COMPLETED,
        DEPLOYMENT_STATUS_ROLLED_BACK pb \<mapsto> ROLLED_BACK,
        DEPLOYMENT_STATUS_CANCELLED pb \<mapsto> CANCELLED,
        DEPLOYMENT_STATUS_FAILED pb \<mapsto> FAILED]
       s UNSPECIFIED"

definition type_constants :: "deploy_pb2 \<Rightarrow> int list" where
  "type_constants pb =
     [DEPLOYMENT_TYPE_UNSPECIFIED pb, DEPLOYMENT_TYPE_IMMEDIATE pb, DEPLOYMENT_TYPE_GRADUAL pb,
      DEPLOYMENT_TYPE_CANARY pb, DEPLOYMENT_TYPE_BLUE_GREEN pb]"

definition status_constants :: "deploy_pb2 \<Rightarrow> int list" where
  "status_constants pb =
     [DEPLOYMENT_STATUS_UNSPECIFIED pb, DEPLOYMENT_STATUS_PENDING_APPROVAL pb,
      DEPLOYMENT_STATUS_PENDING_GATES pb, DEPLOYMENT_STATUS_GATES_FAILED pb,
      DEPLOYMENT_STATUS_IN_PROGRESS pb, DEPLOYMENT_STATUS_COMPLETED pb,
      DEPLOYMENT_STATUS_ROLLED_BACK pb, DEPLOYMENT_STATUS_CANCELLED pb,
      DEPLOYMENT_STATUS_FAILED pb]"

section \<open>The Get operations of the service clients\<close>

text \<open>
  Every Get operation has one shape: the request message is built outside the
  \<open>try\<close>, the remote call and the conversion of its response run inside it, and the
  handler is \<open>except Exception: return None\<close>. The generated message module is
  \<open>None\<close> when its import failed, and building the request then raises
  \<open>AttributeError\<close> before the \<open>try\<close> is entered.
\<close>

datatype request =
    GetPromptRequest string int
  | GetPromptVersionRequest string int
  | GetDatasetRequest string
  | GetEvalRunRequest string
  | GetTraceRequest string
  | GetDeploymentRequest string

text \<open>
  What a client is connected to: whether the generated code was imported, what the stub's
  call does with a request (the response message, or the exception it raises), and what
  the conversion of a response to the domain model does.
\<close>

record ('pb, 'm) service =
  generated :: bool
  invoke :: "request \<Rightarrow> py_exception + 'pb"
  convert :: "'pb \<Rightarrow> py_exception + 'm"

definition try_get :: "('pb, 'm) service \<Rightarrow> request \<Rightarrow> py_exception + 'm option" where
  "try_get svc req =
     (case (case invoke svc req of Inl e \<Rightarrow> Inl e | Inr response \<Rightarrow> convert svc response) of
        Inr m \<Rightarrow> Inr (Some m)
      | Inl e \<Rightarrow> if is_Exception e then Inr None else Inl e)"

definition PromptClient_get ::
    "('pb, 'm) service \<Rightarrow> string \<Rightarrow> int option \<Rightarrow> py_exception + 'm option" where
  "PromptClient_get svc id_or_slug ver =
     (if \<not> generated svc then Inl AttributeError
      else try_get svc (GetPromptRequest id_or_slug (version_or ver 0)))"

definition PromptClient_get_version ::
    "('pb, 'm) service \<Rightarrow> string \<Rightarrow> int \<Rightarrow> py_exception + 'm option" where
  "PromptClient_get_version svc ident ver =
     (if \<not> generated svc then Inl AttributeError
      else try_get svc (GetPromptVersionRequest ident ver))"

definition DatasetsClient_get :: "('pb, 'm) service \<Rightarrow> string \<Rightarrow> py_exception + 'm option" where
  "DatasetsClient_get svc ident =
     (if \<not> generated svc then Inl AttributeError else try_get svc (GetDatasetRequest ident))"

definition EvalClient_get_run :: "('pb, 'm) service \<Rightarrow> string \<Rightarrow> py_exception + 'm option" where
  "EvalClient_get_run svc ident =
     (if \<not> generated svc then Inl AttributeError else try_get svc (GetEvalRunRequest ident))"

definition ObserveClient_get_trace ::
    "('pb, 'm) service \<Rightarrow> string \<Rightarrow> py_exception + 'm option" where
  "ObserveClient_get_trace svc trace_id =
     (if \<not> generated svc then Inl AttributeError else try_get svc (GetTraceRequest trace_id))"

definition DeployClient_get :: "('pb, 'm) service \<Rightarrow> string \<Rightarrow> py_exception + 'm option" where
  "DeployClient_get svc ident =
     (if \<not> generated svc then Inl AttributeError else try_get svc (GetDeploymentRequest ident))"

section \<open>services/runtime.py: the streaming completion\<close>

record CompleteStreamResponse =
  content :: string

text \<open>
  \<open>complete_stream\<close> is a generator over the remote stream. One \<open>next\<close> on it runs
  the loop up to the following \<open>yield\<close>: it gives the fragment yielded and the rest of
  the remote stream, or \<open>None\<close> when the remote stream has ended.
\<close>

fun complete_stream_next ::
    "CompleteStreamResponse list \<Rightarrow> (string \<times> CompleteStreamResponse list) option" where
  "complete_stream_next [] = None"
| "complete_stream_next (response # rest) =
     (if content response \<noteq> [] then Some (content response, rest)
      else complete_stream_next rest)"

text \<open>Everything a caller gets who iterates the generator to its end.\<close>

function complete_stream :: "CompleteStreamResponse list \<Rightarrow> string list" where
  "complete_stream rs =
     (case complete_stream_next rs of
        None \<Rightarrow> []
      | Some (c, rest) \<Rightarrow> c # complete_stream rest)"
  by pat_completeness auto
termination
proof -
  have shorter: "length rest < length rs"
    if "complete_stream_next rs = Some (c, rest)" for rs c rest
    using that by (induction rs) (auto split: if_splits)
  show ?thesis
    by (relation "measure length") (auto dest: shorter)
qed

declare complete_stream.simps [simp del]

section \<open>config.py\<close>

record ServiceEndpoint =
  host :: string
  port :: int
  use_tls :: bool

text \<open>\<open>str\<close> of an \<open>int\<close>, for the f-string of \<open>address\<close>.\<close>

function str_nat :: "nat \<Rightarrow> string" where
  "str_nat n =
     (if n < 10 then [''0123456789'' ! n]
      else str_nat (n div 10) @ [''0123456789'' ! (n mod 10)])"
  by pat_completeness auto
termination
  by (relation "measure id") auto

declare str_nat.simps [simp del]

definition str_int :: "int \<Rightarrow> string" where
  "str_int i = (if i < 0 then CHR ''-'' # str_nat (nat (- i)) else str_nat (nat i))"

definition address :: "ServiceEndpoint \<Rightarrow> string" where
  "address e = host e @ '':'' @ str_int (port e)"

record DelosConfig =
  observe :: ServiceEndpoint
  runtime :: ServiceEndpoint
  prompt :: ServiceEndpoint
  datasets :: ServiceEndpoint
  eval :: ServiceEndpoint
  deploy :: ServiceEndpoint
  timeout :: pyfloat

section \<open>services/base.py\<close>

text \<open>
  A channel is an object of the gRPC library: what it was created with, and a number
  that tells one creation from another. The library's side of the program is the log of
  the channels created and of the channels closed, in order.
\<close>

datatype channel = Channel (secure: bool) (target: string) (serial: nat)

record grpc =
  created :: "channel list"
  closed :: "channel list"

text \<open>
  The private fields \<open>_channel\<close> and \<open>_stub\<close> are \<open>p_channel\<close> and \<open>p_stub\<close>; a
  stub is bound to the channel it was built over. \<open>close\<close> does not touch \<open>_stub\<close>.
\<close>

record BaseClient =
  endpoint :: ServiceEndpoint
  p_timeout :: pyfloat
  p_channel :: "channel option"
  p_stub :: "channel option"

definition BaseClient_init :: "ServiceEndpoint \<Rightarrow> pyfloat \<Rightarrow> BaseClient" where
  "BaseClient_init e t = \<lparr>endpoint = e, p_timeout = t, p_channel = None, p_stub = None\<rparr>"

text \<open>\<open>grpc.secure_channel\<close> and \<open>grpc.insecure_channel\<close>: a new channel object.\<close>

definition new_channel :: "bool \<Rightarrow> string \<Rightarrow> grpc \<Rightarrow> channel \<times> grpc" where
  "new_channel tls addr g =
     (let ch = Channel tls addr (length (created g))
      in (ch, g\<lparr>created := created g @ [ch]\<rparr>))"

text \<open>The property \<open>channel\<close>: the value returned, and the client and library after it.\<close>

definition BaseClient_channel :: "BaseClient \<Rightarrow> grpc \<Rightarrow> channel option \<times> BaseClient \<times> grpc" where
  "BaseClient_channel c g =
     (case p_channel c of
        None \<Rightarrow>
          (let (ch, g') = new_channel (use_tls (endpoint c)) (address (endpoint c)) g;
               c' = c\<lparr>p_channel := Some ch\<rparr>
           in (p_channel c', c', g'))
      | Some ch \<Rightarrow> (p_channel c, c, g))"

definition BaseClient_close :: "BaseClient \<Rightarrow> grpc \<Rightarrow> BaseClient \<times> grpc" where
  "BaseClient_close c g =
     (case p_channel c of
        None \<Rightarrow> (c, g)
      | Some ch \<Rightarrow> (c\<lparr>p_channel := None\<rparr>, g\<lparr>closed := closed g @ [ch]\<rparr>))"

text \<open>Calls of the property one after another, each run to its end before the next.\<close>

fun channel_calls :: "nat \<Rightarrow> BaseClient \<Rightarrow> grpc \<Rightarrow> channel option list \<times> BaseClient \<times> grpc" where
  "channel_calls 0 c g = ([], c, g)"
| "channel_calls (Suc n) c g =
     (let (r, c', g') = BaseClient_channel c g;
          (rs, c'', g'') = channel_calls n c' g'
      in (r # rs, c'', g''))"

subsection \<open>The property \<open>channel\<close> under interleaving\<close>

text \<open>
  The property has no lock. Its statements are the test \<open>self._channel is None\<close>,
  the call that creates a channel, the store to \<open>self._channel\<close> and the
  \<open>return self._channel\<close>; a thread switch can fall between any two of them. A
  thread is at one of these statements, or has returned.
\<close>

datatype pc = At_test | At_create | At_store channel | At_return | Returned "channel option"

record sys =
  client :: BaseClient
  lib :: grpc
  threads :: "pc list"

definition step :: "nat \<Rightarrow> sys \<Rightarrow> sys" where
  "step i s =
     (if i \<ge> length (threads s) then s
      else case threads s ! i of
        At_test \<Rightarrow>
          s\<lparr>threads := (threads s)[i := (if p_channel (client s) = None then At_create else At_return)]\<rparr>
      | At_create \<Rightarrow>
          (let (ch, g') = new_channel (use_tls (endpoint (client s))) (address (endpoint (client s))) (lib s)
           in s\<lparr>lib := g', threads := (threads s)[i := At_store ch]\<rparr>)
      | At_store ch \<Rightarrow>
          s\<lparr>client := (client s)\<lparr>p_channel := Some ch\<rparr>, threads := (threads s)[i := At_return]\<rparr>
      | At_return \<Rightarrow>
          s\<lparr>threads := (threads s)[i := Returned (p_channel (client s))]\<rparr>
      | Returned r \<Rightarrow> s)"

text \<open>A schedule names the thread that runs next, statement by statement.\<close>

fun run :: "nat list \<Rightarrow> sys \<Rightarrow> sys" where
  "run [] s = s"
| "run (i # sched) s = run sched (step i s)"

definition start :: "BaseClient \<Rightarrow> grpc \<Rightarrow> nat \<Rightarrow> sys" where
  "start c g n = \<lparr>client = c, lib = g, threads = replicate n At_test\<rparr>"

section \<open>client.py\<close>

text \<open>
  The six private slots of the facade; a sub-client is a \<open>BaseClient\<close> with its stub.
\<close>

record DelosClient =
  config :: DelosConfig
  p_observe :: "BaseClient option"
  p_runtime :: "BaseClient option"
  p_prompts :: "BaseClient option"
  p_datasets :: "BaseClient option"
  p_eval :: "BaseClient option"
  p_deploy :: "BaseClient option"

definition DelosClient_init :: "DelosConfig \<Rightarrow> DelosClient" where
  "DelosClient_init cfg =
     \<lparr>config = cfg, p_observe = None, p_runtime = None, p_prompts = None,
      p_datasets = None, p_eval = None, p_deploy = None\<rparr>"

text \<open>One \<open>if self._x is not None: self._x.close()\<close>: its effect on the library.\<close>

definition close_slot :: "BaseClient option \<Rightarrow> grpc \<Rightarrow> grpc" where
  "close_slot slot g = (case slot of None \<Rightarrow> g | Some c \<Rightarrow> snd (BaseClient_close c g))"

definition DelosClient_close :: "DelosClient \<Rightarrow> grpc \<Rightarrow> DelosClient \<times> grpc" where
  "DelosClient_close f g =
     (let g1 = close_slot (p_observe f) g;   f1 = (if p_observe f = None then f else f\<lparr>p_observe := None\<rparr>);
          g2 = close_slot (p_runtime f1) g1;  f2 = (if p_runtime f1 = None then f1 else f1\<lparr>p_runtime := None\<rparr>);
          g3 = close_slot (p_prompts f2) g2;  f3 = (if p_prompts f2 = None then f2 else f2\<lparr>p_prompts := None\<rparr>);
          g4 = close_slot (p_datasets f3) g3; f4 = (if p_datasets f3 = None then f3 else f3\<lparr>p_datasets := None\<rparr>);
          g5 = close_slot (p_eval f4) g4;     f5 = (if p_eval f4 = None then f4 else f4\<lparr>p_eval := None\<rparr>);
          g6 = close_slot (p_deploy f5) g5;   f6 = (if p_deploy f5 = None then f5 else f5\<lparr>p_deploy := None\<rparr>)
      in (f6, g6))"

subsection \<open>\<open>health_check\<close>\<close>

text \<open>
  What the network does to a probe: creating the channel, waiting two seconds for it to
  be ready, and closing it each return or raise.
\<close>

record probe_env =
  insecure_channel :: "string \<Rightarrow> py_exception + channel"
  channel_ready :: "channel \<Rightarrow> py_exception + unit"
  channel_close :: "channel \<Rightarrow> py_exception + unit"

text \<open>
  The body of the outer \<open>try\<close> for one service: the results after it, and the exception
  that leaves it, if any. The \<open>finally\<close> clause runs in every case, and an exception it
  raises replaces the one on its way out.
\<close>

definition probe_body :: "probe_env \<Rightarrow> string \<Rightarrow> ServiceEndpoint \<Rightarrow> (string \<rightharpoonup> bool)
    \<Rightarrow> (string \<rightharpoonup> bool) \<times> py_exception option" where
  "probe_body env name e results =
     (case insecure_channel env (address e) of
        Inl ex \<Rightarrow> (results, Some ex)
      | Inr ch \<Rightarrow>
          (let (results', leaving) =
                 (case channel_ready env ch of
                    Inr _ \<Rightarrow> (results(name \<mapsto> True), None)
                  | Inl ex \<Rightarrow>
                      if ex = FutureTimeoutError then (results(name \<mapsto> False), None)
                      else (results, Some ex))
           in case channel_close env ch of
                Inl ex \<Rightarrow> (results', Some ex)
              | Inr _ \<Rightarrow> (results', leaving)))"

definition probe :: "probe_env \<Rightarrow> string \<Rightarrow> ServiceEndpoint \<Rightarrow> (string \<rightharpoonup> bool)
    \<Rightarrow> py_exception + (string \<rightharpoonup> bool)" where
  "probe env name e results =
     (case probe_body env name e results of
        (results', None) \<Rightarrow> Inr results'
      | (results', Some ex) \<Rightarrow>
          if is_Exception ex then Inr (results'(name \<mapsto> False)) else Inl ex)"

fun probe_all :: "probe_env \<Rightarrow> (string \<times> ServiceEndpoint) list \<Rightarrow> (string \<rightharpoonup> bool)
    \<Rightarrow> py_exception + (string \<rightharpoonup> bool)" where
  "probe_all env [] results = Inr results"
| "probe_all env ((name, e) # services) results =
     (case probe env name e results of
        Inl ex \<Rightarrow> Inl ex
      | Inr results' \<Rightarrow> probe_all env services results')"

definition services_of :: "DelosConfig \<Rightarrow> (string \<times> ServiceEndpoint) list" where
  "services_of cfg =
     [(''observe'', observe cfg), (''runtime'', runtime cfg), (''prompt'', prompt cfg),
      (''datasets'', datasets cfg), (''eval'', eval cfg), (''deploy'', deploy cfg)]"

definition health_check :: "probe_env \<Rightarrow> DelosClient \<Rightarrow> py_exception + (string \<rightharpoonup> bool)" where
  "health_check env f = probe_all env (services_of (config f)) Map.empty"

text \<open>
  A service counts as reachable when its channel is created, is ready within the two
  seconds and is closed, each without an exception.
\<close>

definition reachable :: "probe_env \<Rightarrow> ServiceEndpoint \<Rightarrow> bool" where
  "reachable env e =
     (case insecure_channel env (address e) of
        Inl ex \<Rightarrow> False
      | Inr ch \<Rightarrow> channel_ready env ch = Inr () \<and> channel_close env ch = Inr ())"

section \<open>Concrete inputs\<close>

text \<open>A prompt with a version numbered 0 that is not the current one.\<close>

definition two_versions :: Prompt where
  "two_versions = \<lparr>slug = ''greet'', current_version = 1,
     versions = [\<lparr>version = 0, template = ''zero'', system_prompt = ''''\<rparr>,
                 \<lparr>version = 1, template = ''one'', system_prompt = ''''\<rparr>]\<rparr>"

text \<open>The same prompt with 0 as its current version.\<close>

definition zero_current :: Prompt where
  "zero_current = two_versions\<lparr>current_version := 0\<rparr>"

text \<open>A service that answers every request with a permission failure.\<close>

definition denying :: "(unit, unit) service" where
  "denying = \<lparr>generated = True, invoke = (\<lambda>req. Inl (RpcError PERMISSION_DENIED)), convert = Inr\<rparr>"

text \<open>The numbering a protobuf compiler gives the enum values in declaration order.\<close>

definition numbered :: deploy_pb2 where
  "numbered = \<lparr>DEPLOYMENT_TYPE_UNSPECIFIED = 0, DEPLOYMENT_TYPE_IMMEDIATE = 1,
     DEPLOYMENT_TYPE_GRADUAL = 2, DEPLOYMENT_TYPE_CANARY = 3, DEPLOYMENT_TYPE_BLUE_GREEN = 4,
     DEPLOYMENT_STATUS_UNSPECIFIED = 0, DEPLOYMENT_STATUS_PENDING_APPROVAL = 1,
     DEPLOYMENT_STATUS_PENDING_GATES = 2, DEPLOYMENT_STATUS_GATES_FAILED = 3,
     DEPLOYMENT_STATUS_IN_PROGRESS = 4, DEPLOYMENT_STATUS_COMPLETED = 5,
     DEPLOYMENT_STATUS_ROLLED_BACK = 6, DEPLOYMENT_STATUS_CANCELLED = 7,
     DEPLOYMENT_STATUS_FAILED = 8\<rparr>"

text \<open>The template of the specification's example, and one whose value is a placeholder.\<close>

definition hello :: Prompt where
  "hello = \<lparr>slug = ''hello'', current_version = 1,
     versions = [\<lparr>version = 1, template = ''Hello {{name}}!'', system_prompt = ''''\<rparr>]\<rparr>"

definition chained :: Prompt where
  "chained = \<lparr>slug = ''chained'', current_version = 1,
     versions = [\<lparr>version = 1, template = ''{{a}}'', system_prompt = ''''\<rparr>]\<rparr>"

text \<open>
  \<open>DelosConfig()\<close> with its defaults (the timeout \<open>30.0\<close> is \<open>15 \<times> 2\<close>), and a
  prompt client over it.
\<close>

definition default_config :: DelosConfig where
  "default_config =
     \<lparr>observe = \<lparr>host = ''localhost'', port = 9000, use_tls = False\<rparr>,
      runtime = \<lparr>host = ''localhost'', port = 9001, use_tls = False\<rparr>,
      prompt = \<lparr>host = ''localhost'', port = 9002, use_tls = False\<rparr>,
      datasets = \<lparr>host = ''localhost'', port = 9003, use_tls = False\<rparr>,
      eval = \<lparr>host = ''localhost'', port = 9004, use_tls = False\<rparr>,
      deploy = \<lparr>host = ''localhost'', port = 9005, use_tls = False\<rparr>,
      timeout = Finite 15 1\<rparr>"

definition prompt_client :: BaseClient where
  "prompt_client = BaseClient_init (prompt default_config) (timeout default_config)"

definition fresh_lib :: grpc where
  "fresh_lib = \<lparr>created = [], closed = []\<rparr>"

text \<open>
  A network on which the deploy service refuses the connection, the runtime service is
  not ready within the two seconds, the readiness of the prompt service raises, and
  closing the channel to the datasets service raises.
\<close>

definition flaky_net :: probe_env where
  "flaky_net =
     \<lparr>insecure_channel =
        (\<lambda>a. if a = ''localhost:9005'' then Inl (RpcError UNAVAILABLE) else Inr (Channel False a 0)),
      channel_ready =
        (\<lambda>ch. if target ch = ''localhost:9001'' then Inl FutureTimeoutError
              else if target ch = ''localhost:9002'' then Inl (RpcError INTERNAL)
              else Inr ()),
      channel_close =
        (\<lambda>ch. if target ch = ''localhost:9003'' then Inl (RpcError UNAVAILABLE) else Inr ())\<rparr>"

section \<open>Properties of the models\<close>

subsection \<open>\<open>Prompt.get_version\<close>\<close>

lemma first_numbered_find: "first_numbered t vs = find (\<lambda>v. version v = t) vs"
  by (induction vs) auto

lemma first_numbered_version: "first_numbered t vs = Some v \<Longrightarrow> version v = t"
  by (induction vs) (auto split: if_splits)

lemma version_or_zero: "version_or (Some 0) d = version_or None d"
  by (simp add: version_or_def)

text \<open>
  Claim C10, as the code has it. For every prompt, \<open>get_version(0)\<close> returns what
  \<open>get_version(None)\<close> returns, which is the first version whose number is
  \<open>current_version\<close>, or \<open>None\<close> when there is none: the fallback tests
  truthiness, so the request 0 is read as no request. The version that the request 0
  selects has the current number: a version numbered 0 is selected when, and only when,
  0 is the current number. \<open>render(version=0)\<close> renders the current version.
\<close>

theorem get_version_zero_is_unspecified:
  "get_version p (Some 0) = get_version p None
   \<and> get_version p None = find (\<lambda>v. version v = current_version p) (versions p)
   \<and> render p variables (Some 0) = render p variables None
   \<and> (\<forall>v. get_version p (Some 0) = Some v \<longrightarrow> version v = current_version p)"
proof -
  have g: "get_version p (Some 0) = get_version p None"
    by (simp add: get_version_def version_or_zero)
  have f: "get_version p None = find (\<lambda>v. version v = current_version p) (versions p)"
    by (simp add: get_version_def version_or_def first_numbered_find)
  have r: "render p variables (Some 0) = render p variables None"
    unfolding render_def g version_or_zero by (rule refl)
  have n: "\<forall>v. get_version p (Some 0) = Some v \<longrightarrow> version v = current_version p"
    by (auto simp: get_version_def version_or_def dest: first_numbered_version)
  from g f r n show ?thesis by blast
qed

theorem get_version_zero_is_unspecified_witness:
  "get_version two_versions (Some 0) = Some \<lparr>version = 1, template = ''one'', system_prompt = ''''\<rparr>
   \<and> version (the (get_version two_versions (Some 0))) = current_version two_versions
   \<and> render two_versions None (Some 0) = Inr ''one''"
  using get_version_zero_is_unspecified [of two_versions None]
  by (simp add: two_versions_def get_version_def version_or_def render_def)

text \<open>
  The claim as the specification words it fails where it says that a version numbered 0
  can never be selected: when 0 is the current version, the request 0 selects it.
\<close>

theorem get_version_zero_selected_counterexample:
  "current_version zero_current = 0
   \<and> get_version zero_current (Some 0)
       = Some \<lparr>version = 0, template = ''zero'', system_prompt = ''''\<rparr>"
  by (simp add: zero_current_def two_versions_def get_version_def version_or_def)

subsection \<open>\<open>EvalRun.progress\<close>\<close>

lemma truediv_1_4: "truediv 1 4 = Inr (Finite 1 (- 2))"
  by code_simp

lemma quarter_times_hundred: "fmul (Finite 1 (- 2)) hundred = Finite 25 0"
  by code_simp

lemma truediv_not_ZeroDivisionError: "b \<noteq> 0 \<Longrightarrow> truediv a b \<noteq> Inl ZeroDivisionError"
  by (simp add: truediv_def split: pyfloat.splits)

text \<open>In binary64, 7 of 100 examples make 7.000000000000001 percent.\<close>

lemma progress_7_of_100:
  "progress \<lparr>total_examples = 100, completed_examples = 7\<rparr>
     = Inr (Finite 7881299347898369 (- 50))"
  by code_simp

text \<open>A quotient too large for a float leaves \<open>progress\<close> as an \<open>OverflowError\<close>.\<close>

lemma progress_overflow:
  "progress \<lparr>total_examples = 1, completed_examples = 10 ^ 309\<rparr> = Inl OverflowError"
  by code_simp

text \<open>
  Claim C4. For every run, \<open>progress\<close> is \<open>0.0\<close> when \<open>total_examples\<close> is 0,
  whatever \<open>completed_examples\<close> is, and otherwise it is the float expression
  \<open>(completed_examples / total_examples) * 100\<close>: the true division of the two
  integers, then the float product with \<open>100.0\<close>. The division by zero is never
  reached, and with 4 examples of which 1 is completed the value is \<open>25.0\<close>.
\<close>

theorem progress_value:
  "(total_examples r = 0 \<longrightarrow> progress r = Inr (Finite 0 0))
   \<and> (total_examples r \<noteq> 0 \<longrightarrow>
        progress r = (case truediv (completed_examples r) (total_examples r) of
                        Inl e \<Rightarrow> Inl e
                      | Inr q \<Rightarrow> Inr (fmul q hundred)))
   \<and> progress r \<noteq> Inl ZeroDivisionError
   \<and> progress (r\<lparr>total_examples := 4, completed_examples := 1\<rparr>) = Inr (Finite 25 0)"
proof -
  have z: "progress r \<noteq> Inl ZeroDivisionError"
    using truediv_not_ZeroDivisionError [of "total_examples r" "completed_examples r"]
    by (auto simp: progress_def split: sum.splits)
  have q: "progress (r\<lparr>total_examples := 4, completed_examples := 1\<rparr>) = Inr (Finite 25 0)"
    by (simp add: progress_def truediv_1_4 quarter_times_hundred)
  from z q show ?thesis by (simp add: progress_def)
qed

theorem progress_value_witness:
  "progress \<lparr>total_examples = 0, completed_examples = 7\<rparr> = Inr (Finite 0 0)
   \<and> progress \<lparr>total_examples = 4, completed_examples = 1\<rparr> = Inr (Finite 25 0)
   \<and> progress \<lparr>total_examples = 100, completed_examples = 7\<rparr>
       = Inr (Finite 7881299347898369 (- 50))"
  using progress_value [of "\<lparr>total_examples = 0, completed_examples = 7\<rparr>"]
        progress_value [of "\<lparr>total_examples = 100, completed_examples = 7\<rparr>"]
        progress_7_of_100
  by simp


subsection \<open>\<open>Deployment.is_active\<close> and \<open>Deployment.is_complete\<close>\<close>

text \<open>
  Claim C5. For every deployment, \<open>is_active\<close> holds exactly for the statuses
  pending_approval, pending_gates and in_progress, and \<open>is_complete\<close> exactly for
  completed, rolled_back, cancelled, failed and gates_failed; the two never hold
  together, and with the status unspecified neither holds.
\<close>

theorem active_complete_partition:
  "(is_active d \<longleftrightarrow> status d = PENDING_APPROVAL \<or> status d = PENDING_GATES \<or> status d = IN_PROGRESS)
   \<and> (is_complete d \<longleftrightarrow> status d = COMPLETED \<or> status d = ROLLED_BACK \<or> status d = CANCELLED
          \<or> status d = FAILED \<or> status d = GATES_FAILED)
   \<and> \<not> (is_active d \<and> is_complete d)
   \<and> \<not> is_active (d\<lparr>status := UNSPECIFIED\<rparr>) \<and> \<not> is_complete (d\<lparr>status := UNSPECIFIED\<rparr>)"
  by (auto simp: is_active_def is_complete_def)

subsection \<open>\<open>RuntimeClient.complete_stream\<close>\<close>

lemma complete_stream_Nil: "complete_stream [] = []"
  by (simp add: complete_stream.simps)

lemma complete_stream_Cons:
  "complete_stream (r # rs) =
     (if content r \<noteq> [] then content r # complete_stream rs else complete_stream rs)"
  by (simp add: complete_stream.simps [of "r # rs"] complete_stream.simps [of rs])

text \<open>
  Claim C7. For every sequence of fragments of the remote stream, the caller who iterates
  \<open>complete_stream\<close> to its end gets the contents of the fragments whose content is not
  empty, in the order of the stream, and nothing else.
\<close>

theorem complete_stream_yields_nonempty:
  "complete_stream rs = filter (\<lambda>c. c \<noteq> []) (map content rs)"
  by (induction rs) (simp_all add: complete_stream_Nil complete_stream_Cons)

subsection \<open>The Get operations\<close>

lemma try_get_raises:
  "invoke svc req = Inl e \<Longrightarrow> is_Exception e \<Longrightarrow> try_get svc req = Inr None"
  by (simp add: try_get_def)

text \<open>
  Claim C1, as the code has it. With the generated code imported, every Get operation
  returns \<open>None\<close> when the remote call raises an \<open>Exception\<close> of any class: not found,
  and malformed id, permission, validation, internal and timeout alike. No class of
  remote failure reaches the caller.
\<close>

theorem get_swallows_every_Exception:
  assumes gen: "generated svc" and exc: "is_Exception e"
  shows "(invoke svc (GetPromptRequest i (version_or ver 0)) = Inl e
            \<longrightarrow> PromptClient_get svc i ver = Inr None)
       \<and> (invoke svc (GetPromptVersionRequest i n) = Inl e
            \<longrightarrow> PromptClient_get_version svc i n = Inr None)
       \<and> (invoke svc (GetDatasetRequest i) = Inl e \<longrightarrow> DatasetsClient_get svc i = Inr None)
       \<and> (invoke svc (GetEvalRunRequest i) = Inl e \<longrightarrow> EvalClient_get_run svc i = Inr None)
       \<and> (invoke svc (GetTraceRequest i) = Inl e \<longrightarrow> ObserveClient_get_trace svc i = Inr None)
       \<and> (invoke svc (GetDeploymentRequest i) = Inl e \<longrightarrow> DeployClient_get svc i = Inr None)"
  using gen exc
  by (simp add: PromptClient_get_def PromptClient_get_version_def DatasetsClient_get_def
        EvalClient_get_run_def ObserveClient_get_trace_def DeployClient_get_def try_get_raises)

theorem get_swallows_every_Exception_witness:
  "generated denying \<and> is_Exception (RpcError PERMISSION_DENIED)
   \<and> invoke denying (GetDeploymentRequest ''dep-1'') = Inl (RpcError PERMISSION_DENIED)
   \<and> DeployClient_get denying ''dep-1'' = Inr None
   \<and> PromptClient_get denying ''summarizer'' (Some 2) = Inr None"
  using get_swallows_every_Exception [of denying "RpcError PERMISSION_DENIED" "''dep-1''" "Some 2" 2]
        get_swallows_every_Exception [of denying "RpcError PERMISSION_DENIED" "''summarizer''" "Some 2" 2]
  by (simp add: denying_def)

text \<open>
  The claim as the specification words it fails: a lookup that the server refuses with
  a permission failure returns \<open>None\<close>, where the claim has the failure reach the caller.
\<close>

theorem get_permission_denied_counterexample:
  "invoke denying (GetDeploymentRequest ''dep-1'') = Inl (RpcError PERMISSION_DENIED)
   \<and> DeployClient_get denying ''dep-1'' = Inr None"
  by (simp add: denying_def DeployClient_get_def try_get_def)

subsection \<open>The enum mappers\<close>

lemma dict_get_upd: "dict_get (m(k \<mapsto> v)) k' d = (if k' = k then v else dict_get m k' d)"
  by (simp add: dict_get_def)

lemma dict_get_empty: "dict_get Map.empty k d = d"
  by (simp add: dict_get_def)

lemma type_roundtrip:
  "distinct (type_constants pb) \<Longrightarrow> type_from_pb pb (type_to_pb pb t) = t"
  by (cases t)
     (simp_all add: type_constants_def type_to_pb_def type_from_pb_def dict_get_upd dict_get_empty)

lemma status_roundtrip:
  "distinct (status_constants pb) \<Longrightarrow> status_from_pb pb (status_to_pb pb s) = s"
  by (cases s)
     (simp_all add: status_constants_def status_to_pb_def status_from_pb_def dict_get_upd
        dict_get_empty)

lemma type_unknown:
  "w \<notin> set (type_constants pb) \<Longrightarrow> type_from_pb pb w = TYPE_UNSPECIFIED"
  by (simp add: type_constants_def type_from_pb_def dict_get_upd dict_get_empty)

lemma status_unknown:
  "w \<notin> set (status_constants pb) \<Longrightarrow> status_from_pb pb w = UNSPECIFIED"
  by (simp add: status_constants_def status_from_pb_def dict_get_upd dict_get_empty)

text \<open>
  Claim C2. For the deployment type and the deployment status, decoding the encoding of
  any value of the domain enum gives that value back, and decoding a wire value that is
  none of the generated constants gives the UNSPECIFIED value, with no error. The
  generated constants of one enum are pairwise different, as protobuf numbers them.
\<close>

theorem enum_mappers_roundtrip:
  assumes "distinct (type_constants pb)" and "distinct (status_constants pb)"
  shows "type_from_pb pb (type_to_pb pb t) = t
       \<and> status_from_pb pb (status_to_pb pb s) = s
       \<and> (w \<notin> set (type_constants pb) \<longrightarrow> type_from_pb pb w = TYPE_UNSPECIFIED)
       \<and> (w \<notin> set (status_constants pb) \<longrightarrow> status_from_pb pb w = UNSPECIFIED)"
  using assms by (simp add: type_roundtrip status_roundtrip type_unknown status_unknown)

theorem enum_mappers_roundtrip_witness:
  "distinct (type_constants numbered) \<and> distinct (status_constants numbered)
   \<and> type_to_pb numbered CANARY = 3 \<and> type_from_pb numbered 3 = CANARY
   \<and> status_to_pb numbered ROLLED_BACK = 6 \<and> status_from_pb numbered 6 = ROLLED_BACK
   \<and> 17 \<notin> set (type_constants numbered) \<and> type_from_pb numbered 17 = TYPE_UNSPECIFIED
   \<and> 17 \<notin> set (status_constants numbered) \<and> status_from_pb numbered 17 = UNSPECIFIED"
proof -
  have d1: "distinct (type_constants numbered)"
    by (simp add: type_constants_def numbered_def)
  have d2: "distinct (status_constants numbered)"
    by (simp add: status_constants_def numbered_def)
  have e1: "type_to_pb numbered CANARY = 3"
    by (simp add: type_to_pb_def numbered_def dict_get_def)
  have e2: "status_to_pb numbered ROLLED_BACK = 6"
    by (simp add: status_to_pb_def numbered_def dict_get_def)
  have n1: "17 \<notin> set (type_constants numbered)"
    by (simp add: type_constants_def numbered_def)
  have n2: "17 \<notin> set (status_constants numbered)"
    by (simp add: status_constants_def numbered_def)
  from enum_mappers_roundtrip [OF d1 d2, of CANARY ROLLED_BACK 17] d1 d2 e1 e2 n1 n2
  show ?thesis by simp
qed

subsection \<open>\<open>Prompt.render\<close>\<close>

lemma str_replace_Nil: "old \<noteq> [] \<Longrightarrow> str_replace old new [] = []"
  by (simp add: str_replace.simps)

lemma str_replace_match:
  "old \<noteq> [] \<Longrightarrow> str_replace old new (old @ s) = new @ str_replace old new s"
  by (simp add: str_replace.simps [of old new "old @ s"])

lemma str_replace_skip:
  "old \<noteq> [] \<Longrightarrow> \<not> prefix old (c # s) \<Longrightarrow> str_replace old new (c # s) = c # str_replace old new s"
  by (simp add: str_replace.simps [of old new "c # s"])

lemma placeholder_Cons: "placeholder a = CHR ''{'' # CHR ''{'' # a @ ''}}''"
  by (simp add: placeholder_def)

lemma placeholder_not_Nil: "placeholder a \<noteq> []"
  by (simp add: placeholder_Cons)

lemma skip_char:
  "c \<noteq> CHR ''{'' \<Longrightarrow> str_replace (placeholder a) v (c # s) = c # str_replace (placeholder a) v s"
  by (rule str_replace_skip) (auto simp: placeholder_Cons)

lemma skip_text:
  "no_open t \<Longrightarrow> str_replace (placeholder a) v (t @ s) = t @ str_replace (placeholder a) v s"
  by (induction t) (auto simp: no_open_def skip_char)

text \<open>Between brace-free names, one placeholder starts where another stands only if they are the same.\<close>

lemma prefix_closing:
  "brace_free a \<Longrightarrow> brace_free n \<Longrightarrow> prefix (a @ ''}}'') (n @ ''}}'' @ rest) \<Longrightarrow> a = n"
proof (induction a arbitrary: n)
  case Nil
  then show ?case by (cases n) (auto simp: brace_free_def)
next
  case (Cons x a)
  then show ?case by (cases n) (auto simp: brace_free_def)
qed

lemma hole_other:
  assumes "brace_free a" and "brace_free n" and "a \<noteq> n"
  shows "str_replace (placeholder a) v (placeholder n @ rest)
       = placeholder n @ str_replace (placeholder a) v rest"
proof -
  let ?ph = "placeholder a"
  have first: "\<not> prefix ?ph (CHR ''{'' # CHR ''{'' # n @ ''}}'' @ rest)"
    using assms prefix_closing [of a n rest] by (auto simp: placeholder_Cons)
  have second: "\<not> prefix ?ph (CHR ''{'' # n @ ''}}'' @ rest)"
    using assms(2) by (cases n) (auto simp: placeholder_Cons brace_free_def)
  have tail: "no_open (n @ ''}}'')"
    using assms(2) by (simp add: no_open_def brace_free_def)
  have "str_replace ?ph v (placeholder n @ rest)
      = str_replace ?ph v (CHR ''{'' # CHR ''{'' # n @ ''}}'' @ rest)"
    by (simp add: placeholder_Cons)
  also have "\<dots> = CHR ''{'' # str_replace ?ph v (CHR ''{'' # n @ ''}}'' @ rest)"
    by (rule str_replace_skip [OF placeholder_not_Nil first])
  also have "\<dots> = CHR ''{'' # CHR ''{'' # str_replace ?ph v ((n @ ''}}'') @ rest)"
    using str_replace_skip [OF placeholder_not_Nil second] by simp
  also have "\<dots> = CHR ''{'' # CHR ''{'' # (n @ ''}}'') @ str_replace ?ph v rest"
    by (simp only: skip_text [OF tail])
  finally show ?thesis by (simp add: placeholder_Cons)
qed

lemma replace_flatten:
  "brace_free a \<Longrightarrow> list_all wf_token ts \<Longrightarrow>
   str_replace (placeholder a) v (flatten ts) = flatten (fill_one a v ts)"
proof (induction ts rule: flatten.induct)
  case 1
  then show ?case by (simp add: str_replace_Nil placeholder_not_Nil)
next
  case (2 s ts)
  then show ?case by (simp add: skip_text)
next
  case (3 n ts)
  then show ?case
    by (simp add: hole_other str_replace_match placeholder_not_Nil)
qed

lemma wf_fill_one: "no_open v \<Longrightarrow> list_all wf_token ts \<Longrightarrow> list_all wf_token (fill_one a v ts)"
  by (induction ts rule: flatten.induct) auto

lemma fill_fill_one: "fill vars (fill_one a v ts) = fill ((a, v) # vars) ts"
  by (induction ts rule: flatten.induct) auto

lemma fill_Nil: "fill [] ts = flatten ts"
  by (induction ts rule: flatten.induct) auto

lemma substitute_flatten:
  "wf_vars vars \<Longrightarrow> list_all wf_token ts \<Longrightarrow> substitute vars (flatten ts) = fill vars ts"
proof (induction vars arbitrary: ts)
  case Nil
  then show ?case by (simp add: fill_Nil)
next
  case (Cons nv vars)
  obtain a v where nv: "nv = (a, v)" by (cases nv)
  from Cons.prems nv have a: "brace_free a" and v: "no_open v" and rest: "wf_vars vars"
    by (simp_all add: wf_vars_def)
  have "substitute (nv # vars) (flatten ts) = substitute vars (flatten (fill_one a v ts))"
    using a Cons.prems(2) by (simp add: nv replace_flatten)
  also have "\<dots> = fill vars (fill_one a v ts)"
    by (rule Cons.IH [OF rest wf_fill_one [OF v Cons.prems(2)]])
  finally show ?case by (simp add: nv fill_fill_one)
qed

text \<open>
  Claim C3, as the code has it. For every prompt whose selected version exists, whose
  template is text without an opening brace between placeholders with brace-free names,
  and for supplied variables with brace-free names and values without an opening brace,
  \<open>render\<close> puts the supplied value in the place of each placeholder that has one and
  leaves every other placeholder as it is; with no variables the template is returned
  unchanged. So \<open>"Hello {{name}}!"\<close> with \<open>{"name": "World"}\<close> gives
  \<open>"Hello World!"\<close>.
\<close>

theorem render_fills_placeholders:
  assumes "get_version p ver = Some v" and "template v = flatten ts"
    and "list_all wf_token ts" and "wf_vars vars"
  shows "render p (Some vars) ver = Inr (fill vars ts)
       \<and> render p None ver = Inr (template v)"
  using assms by (simp add: render_def substitute_flatten fill_Nil)

theorem render_fills_placeholders_witness:
  "get_version hello None = Some \<lparr>version = 1, template = ''Hello {{name}}!'', system_prompt = ''''\<rparr>
   \<and> ''Hello {{name}}!'' = flatten [Text ''Hello '', Hole ''name'', Text ''!'']
   \<and> list_all wf_token [Text ''Hello '', Hole ''name'', Text ''!'']
   \<and> wf_vars [(''name'', ''World'')] \<and> wf_vars [(''other'', ''x'')]
   \<and> render hello (Some [(''name'', ''World'')]) None = Inr ''Hello World!''
   \<and> render hello (Some [(''other'', ''x'')]) None = Inr ''Hello {{name}}!''
   \<and> render hello None None = Inr ''Hello {{name}}!''"
proof -
  let ?v = "\<lparr>version = 1, template = ''Hello {{name}}!'', system_prompt = ''''\<rparr>"
  let ?ts = "[Text ''Hello '', Hole ''name'', Text ''!'']"
  have g: "get_version hello None = Some ?v"
    by (simp add: hello_def get_version_def version_or_def)
  have t: "template ?v = flatten ?ts"
    by (simp add: placeholder_def)
  have w: "list_all wf_token ?ts"
    by (simp add: no_open_def brace_free_def)
  have v1: "wf_vars [(''name'', ''World'')]"
    by (simp add: wf_vars_def no_open_def brace_free_def)
  have v2: "wf_vars [(''other'', ''x'')]"
    by (simp add: wf_vars_def no_open_def brace_free_def)
  from render_fills_placeholders [OF g t w v1] render_fills_placeholders [OF g t w v2] g w v1 v2
  show ?thesis by (simp add: placeholder_def)
qed

text \<open>
  The claim as the specification words it fails when a supplied value holds the
  placeholder of a variable that comes later in the dict: the replacements run one
  after another over the whole text, so the template \<open>{{a}}\<close> with
  \<open>{"a": "{{b}}", "b": "X"}\<close> is rendered \<open>X\<close>, where the value supplied for
  \<open>a\<close> is \<open>{{b}}\<close>.
\<close>

theorem render_chained_counterexample:
  "render chained (Some [(''a'', ''{{b}}''), (''b'', ''X'')]) None = Inr ''X''
   \<and> fill [(''a'', ''{{b}}''), (''b'', ''X'')] [Hole ''a''] = ''{{b}}''
   \<and> flatten [Hole ''a''] = ''{{a}}''"
  by (simp add: chained_def render_def get_version_def version_or_def placeholder_def
        str_replace.simps)

subsection \<open>\<open>close\<close>\<close>

lemma BaseClient_close_channel: "p_channel (fst (BaseClient_close c g)) = None"
  by (simp add: BaseClient_close_def split: option.splits)

lemma BaseClient_close_closed: "p_channel c = None \<Longrightarrow> BaseClient_close c g = (c, g)"
  by (simp add: BaseClient_close_def)

lemma BaseClient_close_twice:
  "BaseClient_close (fst (BaseClient_close c g)) (snd (BaseClient_close c g)) = BaseClient_close c g"
  by (simp add: BaseClient_close_closed BaseClient_close_channel)

lemma close_slot_None: "close_slot None g = g"
  by (simp add: close_slot_def)

lemma DelosClient_close_fst:
  "fst (DelosClient_close f g) =
     f\<lparr>p_observe := None, p_runtime := None, p_prompts := None,
       p_datasets := None, p_eval := None, p_deploy := None\<rparr>"
  by (simp add: DelosClient_close_def Let_def)

lemma DelosClient_close_closed:
  "p_observe f = None \<Longrightarrow> p_runtime f = None \<Longrightarrow> p_prompts f = None \<Longrightarrow>
   p_datasets f = None \<Longrightarrow> p_eval f = None \<Longrightarrow> p_deploy f = None \<Longrightarrow>
   DelosClient_close f g = (f, g)"
  by (simp add: DelosClient_close_def Let_def close_slot_None)

lemma DelosClient_close_twice:
  "DelosClient_close (fst (DelosClient_close f g)) (snd (DelosClient_close f g)) = DelosClient_close f g"
proof -
  have "DelosClient_close (fst (DelosClient_close f g)) (snd (DelosClient_close f g))
      = (fst (DelosClient_close f g), snd (DelosClient_close f g))"
    by (rule DelosClient_close_closed) (simp_all add: DelosClient_close_fst)
  then show ?thesis by simp
qed

text \<open>
  Claim C8. For a service client and for the facade, \<open>close\<close> raises nothing; after one
  \<open>close\<close> the channel of the client is \<open>None\<close> and every slot of the facade is
  \<open>None\<close>, and a second \<open>close\<close> right after changes neither the client, the facade
  nor the channels the library has closed.
\<close>

theorem close_idempotent:
  "p_channel (fst (BaseClient_close c g)) = None
   \<and> BaseClient_close (fst (BaseClient_close c g)) (snd (BaseClient_close c g)) = BaseClient_close c g
   \<and> fst (DelosClient_close f g) =
       f\<lparr>p_observe := None, p_runtime := None, p_prompts := None,
         p_datasets := None, p_eval := None, p_deploy := None\<rparr>
   \<and> DelosClient_close (fst (DelosClient_close f g)) (snd (DelosClient_close f g)) = DelosClient_close f g"
  using BaseClient_close_channel [of c g] BaseClient_close_twice [of c g]
        DelosClient_close_fst [of f g] DelosClient_close_twice [of f g]
  by blast

subsection \<open>\<open>health_check\<close>\<close>

lemma probe_absorbs:
  assumes "\<And>a ex. insecure_channel env a = Inl ex \<Longrightarrow> is_Exception ex"
    and "\<And>ch ex. channel_ready env ch = Inl ex \<Longrightarrow> is_Exception ex"
    and "\<And>ch ex. channel_close env ch = Inl ex \<Longrightarrow> is_Exception ex"
  shows "probe env name e results = Inr (results(name \<mapsto> reachable env e))"
proof (cases "insecure_channel env (address e)")
  case (Inl ex)
  with assms(1) show ?thesis
    by (simp add: probe_def probe_body_def reachable_def)
next
  case (Inr ch)
  show ?thesis
  proof (cases "channel_ready env ch")
    case ready: (Inl ex)
    with assms(2) have ex: "is_Exception ex" by blast
    show ?thesis
    proof (cases "channel_close env ch")
      case (Inl ex')
      with assms(3) have "is_Exception ex'" by blast
      with Inr ready Inl ex show ?thesis
        by (simp add: probe_def probe_body_def reachable_def)
    next
      case close: (Inr u)
      with Inr ready ex show ?thesis
        by (simp add: probe_def probe_body_def reachable_def)
    qed
  next
    case ready: (Inr u)
    show ?thesis
    proof (cases "channel_close env ch")
      case (Inl ex')
      with assms(3) have "is_Exception ex'" by blast
      with Inr ready Inl show ?thesis
        by (simp add: probe_def probe_body_def reachable_def)
    next
      case close: (Inr u')
      with Inr ready show ?thesis
        by (simp add: probe_def probe_body_def reachable_def)
    qed
  qed
qed

lemma address_default:
  "address (observe default_config) = ''localhost:9000''"
  "address (runtime default_config) = ''localhost:9001''"
  "address (prompt default_config) = ''localhost:9002''"
  "address (datasets default_config) = ''localhost:9003''"
  "address (eval default_config) = ''localhost:9004''"
  "address (deploy default_config) = ''localhost:9005''"
  by (simp_all add: default_config_def address_def str_int_def str_nat.simps)

text \<open>
  Claim C6. Whatever \<open>Exception\<close> the creation of a channel, the wait for its readiness
  or its closing raises, \<open>health_check\<close> returns a map, never an exception; the map has
  exactly the six entries observe, runtime, prompt, datasets, eval and deploy, and the
  entry of a service is true when its probe went through and false when any step of it
  raised.
\<close>

theorem health_check_always_returns_map:
  assumes "\<forall>a ex. insecure_channel env a = Inl ex \<longrightarrow> is_Exception ex"
    and "\<forall>ch ex. channel_ready env ch = Inl ex \<longrightarrow> is_Exception ex"
    and "\<forall>ch ex. channel_close env ch = Inl ex \<longrightarrow> is_Exception ex"
  shows "\<exists>m. health_check env f = Inr m
           \<and> dom m = {''observe'', ''runtime'', ''prompt'', ''datasets'', ''eval'', ''deploy''}
           \<and> m ''observe'' = Some (reachable env (observe (config f)))
           \<and> m ''runtime'' = Some (reachable env (runtime (config f)))
           \<and> m ''prompt'' = Some (reachable env (prompt (config f)))
           \<and> m ''datasets'' = Some (reachable env (datasets (config f)))
           \<and> m ''eval'' = Some (reachable env (eval (config f)))
           \<and> m ''deploy'' = Some (reachable env (deploy (config f)))"
proof -
  have p: "probe env name e results = Inr (results(name \<mapsto> reachable env e))" for name e results
    using assms by (intro probe_absorbs) blast+
  have "health_check env f =
      Inr [''observe'' \<mapsto> reachable env (observe (config f)),
           ''runtime'' \<mapsto> reachable env (runtime (config f)),
           ''prompt'' \<mapsto> reachable env (prompt (config f)),
           ''datasets'' \<mapsto> reachable env (datasets (config f)),
           ''eval'' \<mapsto> reachable env (eval (config f)),
           ''deploy'' \<mapsto> reachable env (deploy (config f))]"
    by (simp add: health_check_def services_of_def p)
  then show ?thesis by auto
qed

theorem health_check_always_returns_map_witness:
  "\<exists>m. health_check flaky_net (DelosClient_init default_config) = Inr m
       \<and> dom m = {''observe'', ''runtime'', ''prompt'', ''datasets'', ''eval'', ''deploy''}
       \<and> m ''observe'' = Some True \<and> m ''runtime'' = Some False
       \<and> m ''prompt'' = Some False \<and> m ''datasets'' = Some False
       \<and> m ''eval'' = Some True \<and> m ''deploy'' = Some False"
proof -
  have h1: "\<forall>a ex. insecure_channel flaky_net a = Inl ex \<longrightarrow> is_Exception ex"
    by (simp add: flaky_net_def)
  have h2: "\<forall>ch ex. channel_ready flaky_net ch = Inl ex \<longrightarrow> is_Exception ex"
    by (simp add: flaky_net_def)
  have h3: "\<forall>ch ex. channel_close flaky_net ch = Inl ex \<longrightarrow> is_Exception ex"
    by (simp add: flaky_net_def)
  have r: "reachable flaky_net (observe default_config)"
          "\<not> reachable flaky_net (runtime default_config)"
          "\<not> reachable flaky_net (prompt default_config)"
          "\<not> reachable flaky_net (datasets default_config)"
          "reachable flaky_net (eval default_config)"
          "\<not> reachable flaky_net (deploy default_config)"
    by (simp_all add: reachable_def address_default flaky_net_def)
  have c: "config (DelosClient_init default_config) = default_config"
    by (simp add: DelosClient_init_def)
  from health_check_always_returns_map [OF h1 h2 h3, of "DelosClient_init default_config"]
  show ?thesis by (simp only: c r simp_thms)
qed

subsection \<open>The property \<open>channel\<close>\<close>

lemma BaseClient_channel_reuse:
  "p_channel c = Some ch \<Longrightarrow> BaseClient_channel c g = (Some ch, c, g)"
  by (simp add: BaseClient_channel_def)

lemma BaseClient_channel_create:
  "p_channel c = None \<Longrightarrow>
   BaseClient_channel c g =
     (let ch = Channel (use_tls (endpoint c)) (address (endpoint c)) (length (created g))
      in (Some ch, c\<lparr>p_channel := Some ch\<rparr>, g\<lparr>created := created g @ [ch]\<rparr>))"
  by (simp add: BaseClient_channel_def new_channel_def Let_def)

lemma channel_calls_reuse:
  "p_channel c = Some ch \<Longrightarrow> channel_calls n c g = (replicate n (Some ch), c, g)"
  by (induction n) (simp_all add: BaseClient_channel_reuse)

lemma prompt_endpoint:
  "address (endpoint prompt_client) = ''localhost:9002''" "use_tls (endpoint prompt_client) = False"
  by (simp_all add: prompt_client_def BaseClient_init_def default_config_def address_def
        str_int_def str_nat.simps)

lemma step_At_test:
  "i < length ts \<Longrightarrow> ts ! i = At_test \<Longrightarrow>
   step i \<lparr>client = c, lib = g, threads = ts\<rparr> =
     \<lparr>client = c, lib = g,
      threads = ts[i := (if p_channel c = None then At_create else At_return)]\<rparr>"
  by (simp add: step_def)

lemma step_At_create:
  "i < length ts \<Longrightarrow> ts ! i = At_create \<Longrightarrow>
   step i \<lparr>client = c, lib = g, threads = ts\<rparr> =
     \<lparr>client = c,
      lib = g\<lparr>created := created g
               @ [Channel (use_tls (endpoint c)) (address (endpoint c)) (length (created g))]\<rparr>,
      threads = ts[i := At_store
                 (Channel (use_tls (endpoint c)) (address (endpoint c)) (length (created g)))]\<rparr>"
  by (simp add: step_def new_channel_def Let_def)

lemma step_At_store:
  "i < length ts \<Longrightarrow> ts ! i = At_store ch \<Longrightarrow>
   step i \<lparr>client = c, lib = g, threads = ts\<rparr> =
     \<lparr>client = c\<lparr>p_channel := Some ch\<rparr>, lib = g, threads = ts[i := At_return]\<rparr>"
  by (simp add: step_def)

lemma step_At_return:
  "i < length ts \<Longrightarrow> ts ! i = At_return \<Longrightarrow>
   step i \<lparr>client = c, lib = g, threads = ts\<rparr> =
     \<lparr>client = c, lib = g, threads = ts[i := Returned (p_channel c)]\<rparr>"
  by (simp add: step_def)

lemma step_Returned:
  "i < length ts \<Longrightarrow> ts ! i = Returned r \<Longrightarrow>
   step i \<lparr>client = c, lib = g, threads = ts\<rparr> = \<lparr>client = c, lib = g, threads = ts\<rparr>"
  by (simp add: step_def)

text \<open>
  A thread that runs the four statements with no switch in between does what a call of
  the property does.
\<close>

lemma step_model_sequential:
  assumes i: "i < length ts" and t: "ts ! i = At_test"
    and call: "BaseClient_channel c g = (r, c', g')"
  shows "run [i, i, i, i] \<lparr>client = c, lib = g, threads = ts\<rparr>
       = \<lparr>client = c', lib = g', threads = ts[i := Returned r]\<rparr>"
proof (cases "p_channel c")
  case None
  let ?ch = "Channel (use_tls (endpoint c)) (address (endpoint c)) (length (created g))"
  from call None have r: "r = Some ?ch" and c': "c' = c\<lparr>p_channel := Some ?ch\<rparr>"
    and g': "g' = g\<lparr>created := created g @ [?ch]\<rparr>"
    by (auto simp: BaseClient_channel_def new_channel_def Let_def)
  have "run [i, i, i, i] \<lparr>client = c, lib = g, threads = ts\<rparr>
      = run [i, i, i] \<lparr>client = c, lib = g, threads = ts[i := At_create]\<rparr>"
    using i t None by (simp add: step_At_test)
  also have "\<dots> = run [i, i] \<lparr>client = c, lib = g', threads = ts[i := At_store ?ch]\<rparr>"
    using i by (simp add: step_At_create g')
  also have "\<dots> = run [i] \<lparr>client = c', lib = g', threads = ts[i := At_return]\<rparr>"
    using i by (simp add: step_At_store [where ch = ?ch] c')
  also have "\<dots> = \<lparr>client = c', lib = g', threads = ts[i := Returned r]\<rparr>"
    using i by (simp add: step_At_return c' r)
  finally show ?thesis .
next
  case (Some ch)
  from call Some have r: "r = Some ch" and c': "c' = c" and g': "g' = g"
    by (auto simp: BaseClient_channel_def)
  have "run [i, i, i, i] \<lparr>client = c, lib = g, threads = ts\<rparr>
      = run [i, i, i] \<lparr>client = c, lib = g, threads = ts[i := At_return]\<rparr>"
    using i t Some by (simp add: step_At_test)
  also have "\<dots> = run [i, i] \<lparr>client = c, lib = g, threads = ts[i := Returned r]\<rparr>"
    using i Some by (simp add: step_At_return r)
  also have "\<dots> = \<lparr>client = c, lib = g, threads = ts[i := Returned r]\<rparr>"
    using i by (simp add: step_Returned [where r = r])
  finally show ?thesis by (simp add: c' g')
qed

text \<open>
  Claim C9, as the code has it. Calls of \<open>channel\<close> on one client that run one after
  another, with no \<open>close\<close> between them, create at most one channel: the first call
  creates it when the client has none, and every call returns that same channel. The
  property has no initialization guard.
\<close>

theorem channel_created_once_in_sequence:
  assumes "channel_calls (Suc n) c g = (rs, c', g')"
  shows "\<exists>ch. p_channel c' = Some ch \<and> rs = replicate (Suc n) (Some ch)
           \<and> created g' = (if p_channel c = None then created g @ [ch] else created g)"
proof (cases "p_channel c")
  case None
  let ?ch = "Channel (use_tls (endpoint c)) (address (endpoint c)) (length (created g))"
  have "channel_calls (Suc n) c g =
        (replicate (Suc n) (Some ?ch), c\<lparr>p_channel := Some ?ch\<rparr>, g\<lparr>created := created g @ [?ch]\<rparr>)"
    by (simp add: BaseClient_channel_create [OF None] Let_def channel_calls_reuse)
  with assms None show ?thesis by auto
next
  case (Some ch)
  with assms show ?thesis by (auto simp: channel_calls_reuse simp del: channel_calls.simps)
qed

theorem channel_created_once_in_sequence_witness:
  "channel_calls (Suc (Suc (Suc 0))) prompt_client fresh_lib =
     ([Some (Channel False ''localhost:9002'' 0), Some (Channel False ''localhost:9002'' 0),
       Some (Channel False ''localhost:9002'' 0)],
      prompt_client\<lparr>p_channel := Some (Channel False ''localhost:9002'' 0)\<rparr>,
      fresh_lib\<lparr>created := [Channel False ''localhost:9002'' 0]\<rparr>)
   \<and> created (fresh_lib\<lparr>created := [Channel False ''localhost:9002'' 0]\<rparr>)
       = created fresh_lib @ [Channel False ''localhost:9002'' 0]"
proof -
  have none: "p_channel prompt_client = None"
    by (simp add: prompt_client_def BaseClient_init_def)
  have empty: "created fresh_lib = []"
    by (simp add: fresh_lib_def)
  have calls: "channel_calls (Suc (Suc (Suc 0))) prompt_client fresh_lib =
     ([Some (Channel False ''localhost:9002'' 0), Some (Channel False ''localhost:9002'' 0),
       Some (Channel False ''localhost:9002'' 0)],
      prompt_client\<lparr>p_channel := Some (Channel False ''localhost:9002'' 0)\<rparr>,
      fresh_lib\<lparr>created := [Channel False ''localhost:9002'' 0]\<rparr>)"
    by (simp add: BaseClient_channel_create [OF none] BaseClient_channel_reuse Let_def
          prompt_endpoint empty)
  from channel_created_once_in_sequence [OF calls] calls none
  show ?thesis by simp
qed

text \<open>
  The claim as the specification words it fails: two calls that both run the test
  before either stores create two channels, and the one stored first is overwritten
  without having been closed or returned.
\<close>

theorem channel_race_counterexample:
  "run [0, 1, 0, 1, 0, 1, 0, 1] (start prompt_client fresh_lib 2) =
     \<lparr>client = prompt_client\<lparr>p_channel := Some (Channel False ''localhost:9002'' 1)\<rparr>,
      lib = \<lparr>created = [Channel False ''localhost:9002'' 0, Channel False ''localhost:9002'' 1],
             closed = []\<rparr>,
      threads = [Returned (Some (Channel False ''localhost:9002'' 1)),
                 Returned (Some (Channel False ''localhost:9002'' 1))]\<rparr>"
proof -
  have none: "p_channel prompt_client = None"
    by (simp add: prompt_client_def BaseClient_init_def)
  show ?thesis
    by (simp add: start_def numeral_2_eq_2 step_At_test step_At_create step_At_store
          step_At_return none prompt_endpoint fresh_lib_def)
qed

end
